theory Spec2Isabelle
  imports Complex_Main "HOL-Library.Sublist"
begin

section \<open>Python values, exceptions and string helpers\<close>

text \<open>
  The agent of \<^verbatim>\<open>simple_sampleAgent.py\<close> handles the values that
  \<^verbatim>\<open>json.loads\<close> and \<^verbatim>\<open>response.json()\<close> produce: \<^verbatim>\<open>None\<close>, booleans, integers,
  floats, strings, lists and dictionaries with string keys. A dictionary is an association
  list of its items (the keys of a Python dict are distinct); \<^verbatim>\<open>d.get(k)\<close> is
  \<open>map_of d k\<close>.
\<close>

datatype pyfloat = Finite real | PosInfinity | NegInfinity | NaN

datatype json =
    JNull
  | JBool bool
  | JInt int
  | JFloat pyfloat
  | JStr string
  | JArr "json list"
  | JObj "(string \<times> json) list"

text \<open>
  The exceptions the program can meet, by class. All of them are subclasses of Python's
  \<^verbatim>\<open>Exception\<close>. \<open>RequestException\<close> stands for \<^verbatim>\<open>requests.exceptions.RequestException\<close>
  and its subclasses (connection errors, timeouts, HTTP error statuses).
\<close>

datatype exn =
    JSONDecodeError
  | RequestException
  | KeyError
  | IndexError
  | AttributeError
  | TypeError
  | RecursionError
  | OtherException string

text \<open>Python's truth value of a JSON value (\<^verbatim>\<open>if x:\<close>, \<^verbatim>\<open>not x\<close>).\<close>

fun truthy :: "json \<Rightarrow> bool" where
  "truthy JNull = False"
| "truthy (JBool b) = b"
| "truthy (JInt i) = (i \<noteq> 0)"
| "truthy (JFloat f) = (f \<noteq> Finite 0)"
| "truthy (JStr s) = (s \<noteq> [])"
| "truthy (JArr xs) = (xs \<noteq> [])"
| "truthy (JObj kvs) = (kvs \<noteq> [])"

text \<open>\<^verbatim>\<open>d.get(key, default)\<close> on the items \<open>d\<close> of a dictionary.\<close>

definition dict_get :: "(string \<times> json) list \<Rightarrow> string \<Rightarrow> json \<Rightarrow> json" where
  "dict_get d key dflt = (case map_of d key of None \<Rightarrow> dflt | Some v \<Rightarrow> v)"

text \<open>\<^verbatim>\<open>sep.join(parts)\<close>.\<close>

fun join :: "string \<Rightarrow> string list \<Rightarrow> string" where
  "join sep [] = []"
| "join sep [x] = x"
| "join sep (x # y # ys) = x @ sep @ join sep (y # ys)"

text \<open>
  \<^verbatim>\<open>xs[-m:]\<close> for an integer \<open>m\<close>: the last \<open>m\<close> elements when \<open>m\<close> is positive (all of
  them when the list is shorter), the whole list when \<open>m = 0\<close>, and \<^verbatim>\<open>xs[k:]\<close> when
  \<open>m = -k\<close> is negative.
\<close>

definition tail_slice :: "int \<Rightarrow> 'a list \<Rightarrow> 'a list" where
  "tail_slice m xs =
     (if 0 < m then drop (length xs - nat m) xs else drop (nat (- m)) xs)"


section \<open>Tools\<close>

text \<open>
  A \<^verbatim>\<open>Tool\<close> has a name, a description and \<^verbatim>\<open>use\<close>. The agent calls
  \<^verbatim>\<open>tool.use(**kwargs)\<close>, so \<open>use\<close> takes the items of the keyword dictionary and either
  raises or returns text.
\<close>

record tool =
  name :: string
  description :: string
  use :: "(string \<times> json) list \<Rightarrow> exn + string"

text \<open>
  What the program needs from the interpreter and the standard library:
  \<^item> \<open>str_lower s\<close> is \<^verbatim>\<open>s.lower()\<close> and \<open>str_strip s\<close> is \<^verbatim>\<open>s.strip()\<close>, Python's
    own case folding and whitespace removal over all of Unicode. Both are parameters:
    nothing below depends on what they do to a particular string;
  \<^item> \<open>strftime_now tz\<close> is
    \<^verbatim>\<open>datetime.datetime.now().astimezone(ZoneInfo(tz)).strftime("%Y-%m-%d %H:%M:%S %Z%z")\<close>,
    which may raise (an unknown zone key, a missing zone database);
  \<^item> \<open>str_value v\<close> is \<^verbatim>\<open>str(v)\<close> for a value \<open>v\<close> that is not a string;
  \<^item> \<open>str_exn e\<close> is \<^verbatim>\<open>str(e)\<close> for an exception \<open>e\<close>.
\<close>

record pylib =
  str_lower :: "string \<Rightarrow> string"
  str_strip :: "string \<Rightarrow> string"
  strftime_now :: "string \<Rightarrow> exn + string"
  str_value :: "json \<Rightarrow> string"
  str_exn :: "exn \<Rightarrow> string"

text \<open>The replacement field \<^verbatim>\<open>{city}\<close> of an f-string.\<close>

definition fmt :: "pylib \<Rightarrow> json \<Rightarrow> string" where
  "fmt py v = (case v of JStr s \<Rightarrow> s | _ \<Rightarrow> str_value py v)"

definition city_timezones :: "(string \<times> string) list" where
  "city_timezones =
     [(''kolkata'', ''Asia/Kolkata''),
      (''london'', ''Europe/London''),
      (''new york'', ''America/New_York''),
      (''tokyo'', ''Asia/Tokyo''),
      (''paris'', ''Europe/Paris''),
      (''sydney'', ''Australia/Sydney''),
      (''los angeles'', ''America/Los_Angeles''),
      (''chicago'', ''America/Chicago''),
      (''dubai'', ''Asia/Dubai''),
      (''beijing'', ''Asia/Shanghai'')]"

text \<open>
  \<^verbatim>\<open>TimeTool.get_timezone\<close>: \<^verbatim>\<open>city.lower()\<close> exists for a string only; on any other
  value the attribute lookup raises \<open>AttributeError\<close>.
\<close>

definition get_timezone :: "pylib \<Rightarrow> json \<Rightarrow> exn + string option" where
  "get_timezone py city =
     (case city of
        JStr s \<Rightarrow> Inr (map_of city_timezones (str_lower py s))
      | _ \<Rightarrow> Inl AttributeError)"

text \<open>
  The body of \<^verbatim>\<open>TimeTool.use(self, city)\<close>: everything runs inside
  \<^verbatim>\<open>try: ... except Exception as e\<close>, so the body itself always returns text.
\<close>

definition TimeTool_use :: "pylib \<Rightarrow> json \<Rightarrow> string" where
  "TimeTool_use py city =
     (case get_timezone py city of
        Inl e \<Rightarrow> ''Error getting time for '' @ fmt py city @ '': '' @ str_exn py e
      | Inr timezone_str \<Rightarrow>
          (case timezone_str of
             None \<Rightarrow> ''Could not determine the timezone for '' @ fmt py city @ ''.''
           | Some tz \<Rightarrow>
               if tz = [] then ''Could not determine the timezone for '' @ fmt py city @ ''.''
               else
                 (case strftime_now py tz of
                    Inl e \<Rightarrow> ''Error getting time for '' @ fmt py city @ '': '' @ str_exn py e
                  | Inr current_time \<Rightarrow>
                      ''The current time in '' @ fmt py city @ '' is '' @ current_time @ ''.'')))"

text \<open>
  The call \<^verbatim>\<open>tool.use(**kwargs)\<close> on a \<^verbatim>\<open>TimeTool\<close>: Python binds the keywords to the
  signature \<^verbatim>\<open>use(self, city)\<close> before the body (and its \<^verbatim>\<open>try\<close>) starts. A missing
  \<^verbatim>\<open>city\<close> or any other keyword raises \<open>TypeError\<close> at the call.
\<close>

definition TimeTool_call :: "pylib \<Rightarrow> (string \<times> json) list \<Rightarrow> exn + string" where
  "TimeTool_call py kwargs =
     (case kwargs of
        [(k, v)] \<Rightarrow> if k = ''city'' then Inr (TimeTool_use py v) else Inl TypeError
      | _ \<Rightarrow> Inl TypeError)"

definition TimeTool :: "pylib \<Rightarrow> tool" where
  "TimeTool py =
     \<lparr>name = ''Time Tool'',
      description = ''Provide the current time of a given city. If no timezone is provided, it returns the local time.'',
      use = TimeTool_call py\<rparr>"


section \<open>The agent\<close>

record agent =
  tools :: "tool list"
  memory :: "string list"
  max_memory :: int

text \<open>\<^verbatim>\<open>Agent.__init__\<close> and \<^verbatim>\<open>Agent.add_tool\<close>.\<close>

definition Agent_init :: agent where
  "Agent_init = \<lparr>tools = [], memory = [], max_memory = 10\<rparr>"

definition add_tool :: "agent \<Rightarrow> tool \<Rightarrow> agent" where
  "add_tool a t = a\<lparr>tools := tools a @ [t]\<rparr>"

text \<open>
  The collaborators of the agent that are not code of the repository:
  \<^item> \<open>requests_post url data\<close> is the HTTP exchange of \<^verbatim>\<open>query_llm\<close>, that is
    \<^verbatim>\<open>requests.post(url, headers=headers, data=json.dumps(data))\<close>, then
    \<^verbatim>\<open>response.raise_for_status()\<close>, then \<^verbatim>\<open>response.json()\<close>: it raises or gives the
    decoded body;
  \<^item> \<open>json_loads s\<close> is \<^verbatim>\<open>json.loads(s)\<close>: it raises or gives the decoded value. On
    text that is not JSON it raises \<open>JSONDecodeError\<close>, or, when the text is nested
    deeper than the interpreter's recursion limit, \<open>RecursionError\<close>;
  \<^item> \<open>lib\<close> holds the string methods of the interpreter.
  Printing to the console is not modelled.
\<close>

record env =
  requests_post :: "string \<Rightarrow> json \<Rightarrow> exn + json"
  json_loads :: "string \<Rightarrow> exn + json"
  lib :: pylib

text \<open>The dictionary \<^verbatim>\<open>{"action": "respond_to_user", "args": {"response": t}}\<close>.\<close>

definition respond_to_user :: "string \<Rightarrow> json" where
  "respond_to_user t =
     JObj [(''action'', JStr ''respond_to_user''), (''args'', JObj [(''response'', JStr t)])]"

subsection \<open>\<^verbatim>\<open>Agent.json_parser\<close>\<close>

definition json_parser :: "env \<Rightarrow> string \<Rightarrow> exn + json" where
  "json_parser env input_string =
     (case json_loads env input_string of
        Inr v \<Rightarrow> Inr v
      | Inl e \<Rightarrow>
          if e = JSONDecodeError
          then Inr (respond_to_user
                 ''I couldn't understand the response from the LLM. It's not in the correct format.'')
          else Inl e)"

subsection \<open>\<^verbatim>\<open>Agent.query_llm\<close>\<close>

definition llm_url :: string where
  "llm_url = ''http://localhost:11434/v1/completions''"

definition llm_data :: "string \<Rightarrow> json" where
  "llm_data prompt =
     JObj [(''model'', JStr ''llama3.2:latest''),
           (''prompt'', JStr prompt),
           (''max_tokens'', JInt 150),
           (''temperature'', JFloat (Finite (2 / 10)))]"

text \<open>The two pre-serialized decisions that \<^verbatim>\<open>query_llm\<close> returns in place of a completion.\<close>

definition no_content_text :: string where
  \<open>no_content_text =
     ''{"action": "respond_to_user", "args": {"response": "The LLM did not return any content."}}''\<close>

definition llm_error_text :: string where
  \<open>llm_error_text =
     ''{"action": "respond_to_user", "args": {"response": "There was an error getting a response from the LLM."}}''\<close>

text \<open>
  Lines 141 to 146, on the decoded body \<open>json_response\<close>:
  \<^item> \<^verbatim>\<open>json_response.get('choices', [])\<close> needs a dictionary (\<open>AttributeError\<close> otherwise);
  \<^item> \<^verbatim>\<open>not choices\<close> is Python's truth test;
  \<^item> \<^verbatim>\<open>choices[0]\<close> is the first element of a list, the first character of a string,
    \<open>KeyError\<close> on a dictionary (its keys are strings, never \<open>0\<close>) and \<open>TypeError\<close> on a
    number or \<^verbatim>\<open>True\<close>;
  \<^item> \<^verbatim>\<open>choices[0].get('text')\<close> needs a dictionary again, and gives \<^verbatim>\<open>None\<close> for a
    missing key;
  \<^item> \<^verbatim>\<open>choices[0]['text'].strip()\<close> needs a string.
\<close>

definition first_choice :: "json \<Rightarrow> exn + json" where
  "first_choice choices =
     (case choices of
        JArr xs \<Rightarrow> (case xs of [] \<Rightarrow> Inl IndexError | x # _ \<Rightarrow> Inr x)
      | JStr s \<Rightarrow> (case s of [] \<Rightarrow> Inl IndexError | c # _ \<Rightarrow> Inr (JStr [c]))
      | JObj kvs \<Rightarrow> Inl KeyError
      | _ \<Rightarrow> Inl TypeError)"

definition extract_text :: "pylib \<Rightarrow> json \<Rightarrow> exn + string" where
  "extract_text py json_response =
     (case json_response of
        JObj body \<Rightarrow>
          (let choices = dict_get body ''choices'' (JArr []) in
           if \<not> truthy choices then Inr no_content_text
           else
             (case first_choice choices of
                Inl e \<Rightarrow> Inl e
              | Inr choice \<Rightarrow>
                  (case choice of
                     JObj c \<Rightarrow>
                       (let text = dict_get c ''text'' JNull in
                        if \<not> truthy text then Inr no_content_text
                        else (case text of
                                JStr s \<Rightarrow> Inr (str_strip py s)
                              | _ \<Rightarrow> Inl AttributeError))
                   | _ \<Rightarrow> Inl AttributeError)))
      | _ \<Rightarrow> Inl AttributeError)"

text \<open>
  The \<^verbatim>\<open>try\<close> of \<^verbatim>\<open>query_llm\<close> with its two handlers: \<open>RequestException\<close>, and
  \<open>KeyError\<close> or \<open>IndexError\<close>, both returning \<open>llm_error_text\<close>. Any other exception
  leaves \<^verbatim>\<open>query_llm\<close>.
\<close>

definition query_llm :: "env \<Rightarrow> string \<Rightarrow> exn + string" where
  "query_llm env prompt =
     (case (case requests_post env llm_url (llm_data prompt) of
              Inl e \<Rightarrow> Inl e
            | Inr json_response \<Rightarrow> extract_text (lib env) json_response) of
        Inr final_response \<Rightarrow> Inr final_response
      | Inl e \<Rightarrow>
          if e = RequestException then Inr llm_error_text
          else if e = KeyError \<or> e = IndexError then Inr llm_error_text
          else Inl e)"

subsection \<open>\<^verbatim>\<open>Agent.process_input\<close>\<close>

text \<open>Lines 73 and 74: the user's turn is appended and the log cut to its last entries.\<close>

definition remember_user :: "agent \<Rightarrow> string \<Rightarrow> agent" where
  "remember_user a user_input =
     a\<lparr>memory := tail_slice (max_memory a) (memory a @ [''User: '' @ user_input])\<rparr>"

text \<open>Lines 76 to 106: the catalog of the tools and the prompt.\<close>

definition tool_descriptions :: "agent \<Rightarrow> string" where
  "tool_descriptions a =
     join ''\<newline>'' (map (\<lambda>t. ''- '' @ name t @ '': '' @ description t) (tools a))"

definition prompt_instructions :: "string list" where
  \<open>prompt_instructions =
     [''Instructions:'',
      ''- Based on the user's input, decide if you should use a tool or respond directly.'',
      ''- If you need to use a tool, respond with the tool name and the arguments for the tool in JSON format.'',
      ''- If you decide to respond directly to the user, respond with the action "respond_to_user" and the response in JSON format.'',
      [],
      ''**Important**: Only return the JSON response with no additional text.'',
      [],
      ''Examples:'',
      [],
      ''Example 1 (Using a tool):'',
      ''{'',
      ''    "action": "Time Tool",'',
      ''    "args": {'',
      ''        "city": "kolkata"'',
      ''    }'',
      ''}'',
      [],
      ''Example 2 (Responding directly):'',
      ''{'',
      ''    "action": "respond_to_user",'',
      ''    "args": {'',
      ''        "response": "Your direct response here."'',
      ''    }'',
      ''}'']\<close>

definition build_prompt :: "agent \<Rightarrow> string \<Rightarrow> string" where
  "build_prompt a user_input =
     join ''\<newline>''
       ([''User input: '' @ user_input,
         [],
         ''Available tools:'',
         tool_descriptions a,
         []] @ prompt_instructions)"

text \<open>
  What \<^verbatim>\<open>process_input\<close> returns: one of its own dictionaries, or whatever the matching
  tool returned.
\<close>

datatype result = Dict json | Text string

text \<open>
  \<^verbatim>\<open>response_dict.get("action", "").lower()\<close>: \<^verbatim>\<open>get\<close> needs a dictionary and
  \<^verbatim>\<open>lower\<close> a string; both raise \<open>AttributeError\<close> otherwise.
\<close>

definition action_lower :: "pylib \<Rightarrow> json \<Rightarrow> exn + string" where
  "action_lower py response_dict =
     (case response_dict of
        JObj d \<Rightarrow>
          (case dict_get d ''action'' (JStr []) of
             JStr s \<Rightarrow> Inr (str_lower py s)
           | _ \<Rightarrow> Inl AttributeError)
      | _ \<Rightarrow> Inl AttributeError)"

text \<open>
  \<^verbatim>\<open>**response_dict.get("args", {})\<close>: the keyword dictionary of the call. Unpacking
  anything that is not a mapping raises \<open>TypeError\<close>.
\<close>

definition call_kwargs :: "json \<Rightarrow> exn + (string \<times> json) list" where
  "call_kwargs response_dict =
     (case response_dict of
        JObj d \<Rightarrow>
          (case dict_get d ''args'' (JObj []) of
             JObj kwargs \<Rightarrow> Inr kwargs
           | _ \<Rightarrow> Inl TypeError)
      | _ \<Rightarrow> Inl AttributeError)"

text \<open>
  Lines 117 to 121: the loop over the registry, then the final \<^verbatim>\<open>return\<close>. The
  arguments are the string methods, the registry, \<open>response_dict\<close> and the raw
  \<open>response\<close>.
\<close>

fun dispatch :: "pylib \<Rightarrow> tool list \<Rightarrow> json \<Rightarrow> string \<Rightarrow> exn + result" where
  "dispatch py [] response_dict response = Inr (Dict (respond_to_user response))"
| "dispatch py (t # ts) response_dict response =
     (case action_lower py response_dict of
        Inl e \<Rightarrow> Inl e
      | Inr act \<Rightarrow>
          if str_lower py (name t) = act
          then (case call_kwargs response_dict of
                  Inl e \<Rightarrow> Inl e
                | Inr kwargs \<Rightarrow> map_sum id Text (use t kwargs))
          else dispatch py ts response_dict response)"

text \<open>
  \<^verbatim>\<open>process_input\<close> returns its result (or raises) and leaves the agent in a new state:
  the pair of both. An exception of \<^verbatim>\<open>query_llm\<close> leaves after the first append; the
  \<^verbatim>\<open>try\<close> around \<^verbatim>\<open>json_parser\<close> turns every exception into a fixed dictionary; the
  dispatch loop runs outside any \<^verbatim>\<open>try\<close>.
\<close>

definition process_input :: "env \<Rightarrow> agent \<Rightarrow> string \<Rightarrow> (exn + result) \<times> agent" where
  "process_input env a user_input =
     (let a1 = remember_user a user_input;
          prompt = build_prompt a1 user_input
      in case query_llm env prompt of
           Inl e \<Rightarrow> (Inl e, a1)
         | Inr response \<Rightarrow>
             (let a2 = a1\<lparr>memory := memory a1 @ [''Agent: '' @ response]\<rparr>
              in case json_parser env response of
                   Inl e \<Rightarrow>
                     (Inr (Dict (respond_to_user
                        ''There was an error processing the LLM's response.'')), a2)
                 | Inr response_dict \<Rightarrow>
                     (dispatch (lib env) (tools a2) response_dict response, a2)))"

text \<open>
  A conversation: \<^verbatim>\<open>process_input\<close> on each user input in turn, as the loop of
  \<^verbatim>\<open>run\<close> calls it.
\<close>

fun process_inputs :: "env \<Rightarrow> agent \<Rightarrow> string list \<Rightarrow> agent" where
  "process_inputs env a [] = a"
| "process_inputs env a (u # us) = process_inputs env (snd (process_input env a u)) us"


section \<open>Scripted collaborators\<close>

text \<open>
  To run the model on a concrete conversation the collaborators are scripted: the HTTP
  exchange has one fixed outcome, and the decoder is a finite table of texts with their
  decoded values (any other text is rejected as invalid JSON). \<open>completion t\<close> is the body
  \<^verbatim>\<open>{"choices": [{"text": t}]}\<close> of a well-formed reply.

  Every text of the scripted conversations is ASCII. On ASCII text \<^verbatim>\<open>str.lower()\<close> turns
  the letters A to Z into a to z and leaves the rest, and \<^verbatim>\<open>str.strip()\<close> removes the
  characters 09 to 0D, 1C to 1F and 20 at both ends; \<open>ascii_lower\<close> and \<open>ascii_strip\<close> do
  that. \<open>ascii_lib\<close> has them as its string methods and answers every zone with one
  timestamp.
\<close>

definition ascii_lower_char :: "char \<Rightarrow> char" where
  "ascii_lower_char c =
     (case map_of (zip ''ABCDEFGHIJKLMNOPQRSTUVWXYZ'' ''abcdefghijklmnopqrstuvwxyz'') c of
        Some d \<Rightarrow> d
      | None \<Rightarrow> c)"

definition ascii_lower :: "string \<Rightarrow> string" where
  "ascii_lower s = map ascii_lower_char s"

definition ascii_space :: "char \<Rightarrow> bool" where
  "ascii_space c = (c \<in> set [CHR 0x09, CHR 0x0A, CHR 0x0B, CHR 0x0C, CHR 0x0D,
                               CHR 0x1C, CHR 0x1D, CHR 0x1E, CHR 0x1F, CHR 0x20])"

definition ascii_strip :: "string \<Rightarrow> string" where
  "ascii_strip s = rev (dropWhile ascii_space (rev (dropWhile ascii_space s)))"

definition ascii_lib :: pylib where
  "ascii_lib =
     \<lparr>str_lower = ascii_lower,
      str_strip = ascii_strip,
      strftime_now = (\<lambda>tz. Inr ''2024-01-01 09:00:00 JST+0900''),
      str_value = (\<lambda>v. ''<value>''),
      str_exn = (\<lambda>e. ''<exception>'')\<rparr>"

definition scripted :: "exn + json \<Rightarrow> (string \<times> json) list \<Rightarrow> env" where
  "scripted reply decodings =
     \<lparr>requests_post = (\<lambda>url data. reply),
      json_loads = (\<lambda>s. case map_of decodings s of
                              None \<Rightarrow> Inl JSONDecodeError
                            | Some v \<Rightarrow> Inr v),
      lib = ascii_lib\<rparr>"

definition completion :: "string \<Rightarrow> json" where
  "completion t = JObj [(''choices'', JArr [JObj [(''text'', JStr t)]])]"

text \<open>The agent of \<^verbatim>\<open>main\<close>: a fresh agent with the time tool registered.\<close>

definition main_agent :: agent where
  "main_agent = add_tool Agent_init (TimeTool ascii_lib)"

text \<open>
  Backend texts used below, a tool for the weather, and a second tool registered under
  the time tool's name.
\<close>

definition hi_raw :: string where
  \<open>hi_raw = ''{"action":"respond_to_user","args":{"response":"hi"}}''\<close>

definition weather_raw :: string where
  \<open>weather_raw = ''{"action": "Weather Tool", "args": {"city": "Paris"}}''\<close>

definition null_action_raw :: string where
  \<open>null_action_raw = ''{"action": null}''\<close>

definition weather_tool :: tool where
  "weather_tool =
     \<lparr>name = ''Weather Tool'', description = ''Provide the weather of a given city.'',
      use = (\<lambda>kwargs. Inr ''sunny'')\<rparr>"

definition shadowed_tool :: tool where
  "shadowed_tool =
     \<lparr>name = ''time tool'', description = ''Registered second under the same name.'',
      use = (\<lambda>kwargs. Inr ''second'')\<rparr>"

text \<open>
  A text of 1000 opening brackets is not JSON, and nested too deep for the decoder:
  \<^verbatim>\<open>json.loads('[' * 1000)\<close> raises \<open>RecursionError\<close>, not \<open>JSONDecodeError\<close>.
  \<open>deep_env\<close> scripts a backend that completes with this text and a decoder that
  answers it so.
\<close>

definition deep_text :: string where
  "deep_text = replicate 1000 (CHR ''['')"

definition deep_env :: env where
  "deep_env =
     \<lparr>requests_post = (\<lambda>url data. Inr (completion deep_text)),
      json_loads = (\<lambda>s. if s = deep_text then Inl RecursionError else Inl JSONDecodeError),
      lib = ascii_lib\<rparr>"


section \<open>Helper lemmas\<close>

lemma lib_scripted: "lib (scripted reply decodings) = ascii_lib"
  by (simp add: scripted_def)

lemma str_lower_ascii_lib: "str_lower ascii_lib = ascii_lower"
  by (simp add: ascii_lib_def)

lemma str_strip_ascii_lib: "str_strip ascii_lib = ascii_strip"
  by (simp add: ascii_lib_def)

lemma dispatch_no_match:
  assumes "action_lower py response_dict = Inr act"
      and "\<forall>t \<in> set ts. str_lower py (name t) \<noteq> act"
  shows "dispatch py ts response_dict response = Inr (Dict (respond_to_user response))"
  using assms by (induction ts) simp_all

lemma query_llm_completion:
  "truthy (JStr t) \<Longrightarrow>
   query_llm (scripted (Inr (completion t)) table) prompt = Inr (ascii_strip t)"
  by (simp add: query_llm_def scripted_def completion_def extract_text_def dict_get_def
      first_choice_def str_strip_ascii_lib)

lemma strip_weather_raw: "ascii_strip weather_raw = weather_raw"
  by (simp add: ascii_strip_def weather_raw_def ascii_space_def)

lemma strip_null_action_raw: "ascii_strip null_action_raw = null_action_raw"
  by (simp add: ascii_strip_def null_action_raw_def ascii_space_def)

lemma strip_hi_raw: "ascii_strip hi_raw = hi_raw"
  by (simp add: ascii_strip_def hi_raw_def ascii_space_def)

lemma lower_time_tool: "ascii_lower ''Time Tool'' = ''time tool''"
  by (simp add: ascii_lower_def ascii_lower_char_def)

lemma tools_main_agent: "tools main_agent = [TimeTool ascii_lib]"
  by (simp add: main_agent_def add_tool_def Agent_init_def)

lemma name_TimeTool: "name (TimeTool py) = ''Time Tool''"
  by (simp add: TimeTool_def)

lemma query_llm_refused:
  "query_llm (scripted (Inl RequestException) table) prompt = Inr llm_error_text"
  by (simp add: query_llm_def scripted_def)

lemma memory_process_input:
  "memory (snd (process_input env a u)) =
     (case query_llm env (build_prompt (remember_user a u) u) of
        Inl e \<Rightarrow> tail_slice (max_memory a) (memory a @ [''User: '' @ u])
      | Inr response \<Rightarrow>
          tail_slice (max_memory a) (memory a @ [''User: '' @ u]) @ [''Agent: '' @ response])"
  by (simp add: process_input_def remember_user_def Let_def split: sum.splits)

lemma max_memory_process_input: "max_memory (snd (process_input env a u)) = max_memory a"
  by (simp add: process_input_def remember_user_def Let_def split: sum.splits)

lemma texts_differ: "no_content_text \<noteq> llm_error_text"
  by (simp add: no_content_text_def llm_error_text_def)

lemma question_mark_not_in_prompt:
  "tools a = [TimeTool py] \<Longrightarrow> CHR ''?'' \<notin> set (build_prompt a ''thanks'')"
  by (simp add: build_prompt_def tool_descriptions_def prompt_instructions_def TimeTool_def)

lemma length_tail_slice: "0 < m \<Longrightarrow> length (tail_slice m xs) \<le> nat m"
  by (simp add: tail_slice_def)

lemma memory_after_process_input_le:
  assumes "0 < max_memory a"
  shows "length (memory (snd (process_input env a u))) \<le> nat (max_memory a) + 1"
proof -
  have "length (tail_slice (max_memory a) (memory a @ [''User: '' @ u])) \<le> nat (max_memory a)"
    using assms by (rule length_tail_slice)
  then show ?thesis
    by (cases "query_llm env (build_prompt (remember_user a u) u)")
       (simp_all add: memory_process_input)
qed

text \<open>
  What the final \<^verbatim>\<open>return\<close> does when the decoded dictionary has a string for its action,
  or none, and no tool of that name is registered.
\<close>

lemma unmatched_string_action_returns_raw:
  assumes "query_llm env (build_prompt (remember_user a u) u) = Inr raw"
      and "json_parser env raw = Inr (JObj d)"
      and "dict_get d ''action'' (JStr []) = JStr act"
      and "\<forall>t \<in> set (tools a). str_lower (lib env) (name t) \<noteq> str_lower (lib env) act"
  shows "fst (process_input env a u)
         = Inr (Dict (JObj [(''action'', JStr ''respond_to_user''),
                            (''args'', JObj [(''response'', JStr raw)])]))"
proof -
  have "action_lower (lib env) (JObj d) = Inr (str_lower (lib env) act)"
    using assms(3) by (simp add: action_lower_def)
  moreover have "tools (remember_user a u) = tools a"
    by (simp add: remember_user_def)
  ultimately have "dispatch (lib env) (tools (remember_user a u)) (JObj d) raw
                   = Inr (Dict (respond_to_user raw))"
    using assms(4) by (simp add: dispatch_no_match)
  with assms(1,2) show ?thesis
    by (simp add: process_input_def Let_def respond_to_user_def)
qed


section \<open>The bounded memory\<close>

text \<open>
  C1. The claim that the memory log holds at most 10 entries between two calls of
  \<^verbatim>\<open>process_input\<close> fails on the code: the log is cut to \<^verbatim>\<open>max_memory\<close> entries after
  the user's turn is appended, but not after the agent's. Six turns of the agent of
  \<^verbatim>\<open>main\<close>, here with an unreachable backend, leave 11 entries in a log whose
  \<^verbatim>\<open>max_memory\<close> is 10.
\<close>

theorem memory_exceeds_max_after_six_turns:
  "max_memory (process_inputs (scripted (Inl RequestException) []) main_agent
       [''one'', ''two'', ''three'', ''four'', ''five'', ''six'']) = 10
   \<and> length (memory (process_inputs (scripted (Inl RequestException) []) main_agent
       [''one'', ''two'', ''three'', ''four'', ''five'', ''six''])) = 11"
proof -
  let ?env = "scripted (Inl RequestException) []"
  have step: "\<And>a u. memory (snd (process_input ?env a u))
        = tail_slice (max_memory a) (memory a @ [''User: '' @ u]) @ [''Agent: '' @ llm_error_text]"
    by (simp add: memory_process_input query_llm_refused)
  have m0: "max_memory main_agent = 10" "memory main_agent = []"
    by (simp_all add: main_agent_def add_tool_def Agent_init_def)
  show ?thesis
    by (simp add: step max_memory_process_input m0 tail_slice_def)
qed


section \<open>The prompt\<close>

text \<open>
  C2, as amended. The prompt that \<^verbatim>\<open>process_input\<close> passes to \<^verbatim>\<open>query_llm\<close> is built from
  the current user input, the catalog of the registered tools and the fixed instruction
  text only: replacing the memory log by any other leaves the prompt, and the result of
  \<^verbatim>\<open>process_input\<close>, unchanged, and so does the append of the user's turn.
\<close>

theorem prompt_independent_of_memory:
  "build_prompt (a\<lparr>memory := m\<rparr>) user_input = build_prompt a user_input
   \<and> build_prompt (remember_user a user_input) user_input = build_prompt a user_input
   \<and> fst (process_input env (a\<lparr>memory := m\<rparr>) user_input) = fst (process_input env a user_input)"
  by (simp add: build_prompt_def tool_descriptions_def remember_user_def process_input_def Let_def
      split: sum.splits)

text \<open>
  The claim as stated fails: an earlier turn held in the memory log does not occur in the
  prompt, which is the same prompt as with no earlier turn.
\<close>

theorem prompt_omits_memory_counterexample:
  "''User: What time is it in Tokyo?''
     \<in> set (memory (remember_user (main_agent\<lparr>memory := [''User: What time is it in Tokyo?'']\<rparr>)
                      ''thanks''))
   \<and> \<not> sublist ''User: What time is it in Tokyo?''
         (build_prompt (remember_user (main_agent\<lparr>memory := [''User: What time is it in Tokyo?'']\<rparr>)
                          ''thanks'') ''thanks'')
   \<and> build_prompt (remember_user (main_agent\<lparr>memory := [''User: What time is it in Tokyo?'']\<rparr>)
                          ''thanks'') ''thanks''
       = build_prompt (remember_user main_agent ''thanks'') ''thanks''"
proof -
  let ?a = "main_agent\<lparr>memory := [''User: What time is it in Tokyo?'']\<rparr>"
  have m: "memory (remember_user ?a ''thanks'')
           = [''User: What time is it in Tokyo?'', ''User: thanks'']"
    by (simp add: remember_user_def main_agent_def add_tool_def Agent_init_def tail_slice_def)
  have t: "tools (remember_user ?a ''thanks'') = [TimeTool ascii_lib]"
    by (simp add: remember_user_def main_agent_def add_tool_def Agent_init_def)
  have "CHR ''?'' \<notin> set (build_prompt (remember_user ?a ''thanks'') ''thanks'')"
    by (rule question_mark_not_in_prompt [OF t])
  then have n: "\<not> sublist ''User: What time is it in Tokyo?''
         (build_prompt (remember_user ?a ''thanks'') ''thanks'')"
    by (auto dest: set_mono_sublist)
  have e: "build_prompt (remember_user ?a ''thanks'') ''thanks''
           = build_prompt (remember_user main_agent ''thanks'') ''thanks''"
    by (simp add: build_prompt_def tool_descriptions_def remember_user_def)
  from m n e show ?thesis by simp
qed


section \<open>The completion client\<close>

text \<open>
  C6, as amended. When the HTTP exchange raises a \<open>RequestException\<close> (connection refused,
  timeout, HTTP error status), \<^verbatim>\<open>query_llm\<close> returns the pre-serialized decision
  \<open>llm_error_text\<close>, and so it does when \<^verbatim>\<open>choices\<close> is a non-empty dictionary
  (\<^verbatim>\<open>choices[0]\<close> raises \<open>KeyError\<close>). When the decoded body is a dictionary whose
  \<^verbatim>\<open>choices\<close> is missing or empty, or whose first choice is a dictionary with a missing or
  empty \<^verbatim>\<open>text\<close>, it returns the pre-serialized decision \<open>no_content_text\<close> instead.
\<close>

theorem query_llm_fallbacks:
  "(requests_post env llm_url (llm_data prompt) = Inl RequestException
      \<longrightarrow> query_llm env prompt = Inr llm_error_text)
   \<and> (requests_post env llm_url (llm_data prompt) = Inr (JObj body)
      \<and> \<not> truthy (dict_get body ''choices'' (JArr []))
      \<longrightarrow> query_llm env prompt = Inr no_content_text)
   \<and> (requests_post env llm_url (llm_data prompt) = Inr (JObj body)
      \<and> dict_get body ''choices'' (JArr []) = JArr (JObj c # rest)
      \<and> \<not> truthy (dict_get c ''text'' JNull)
      \<longrightarrow> query_llm env prompt = Inr no_content_text)
   \<and> (requests_post env llm_url (llm_data prompt) = Inr (JObj body)
      \<and> dict_get body ''choices'' (JArr []) = JObj (kv # kvs)
      \<longrightarrow> query_llm env prompt = Inr llm_error_text)"
  by (simp add: query_llm_def extract_text_def first_choice_def)

theorem query_llm_fallbacks_witness:
  "query_llm (scripted (Inl RequestException) []) ''hello'' = Inr llm_error_text
   \<and> query_llm (scripted (Inr (JObj [])) []) ''hello'' = Inr no_content_text
   \<and> query_llm (scripted (Inr (JObj [(''choices'', JArr [JObj [(''index'', JInt 0)]])])) [])
        ''hello'' = Inr no_content_text
   \<and> query_llm (scripted (Inr (JObj [(''choices'', JObj [(''text'', JStr ''hi'')])])) [])
        ''hello'' = Inr llm_error_text"
proof -
  have a: "query_llm (scripted (Inl RequestException) []) ''hello'' = Inr llm_error_text"
    using query_llm_fallbacks [of "scripted (Inl RequestException) []" "''hello''"]
    by (simp add: scripted_def)
  have b: "query_llm (scripted (Inr (JObj [])) []) ''hello'' = Inr no_content_text"
    using query_llm_fallbacks [of "scripted (Inr (JObj [])) []" "''hello''" "[]"]
    by (simp add: scripted_def dict_get_def)
  have c: "query_llm (scripted (Inr (JObj [(''choices'', JArr [JObj [(''index'', JInt 0)]])])) [])
        ''hello'' = Inr no_content_text"
    using query_llm_fallbacks
      [of "scripted (Inr (JObj [(''choices'', JArr [JObj [(''index'', JInt 0)]])])) []" "''hello''"
          "[(''choices'', JArr [JObj [(''index'', JInt 0)]])]" "[(''index'', JInt 0)]" "[]"]
    by (simp add: scripted_def dict_get_def)
  have d: "query_llm (scripted (Inr (JObj [(''choices'', JObj [(''text'', JStr ''hi'')])])) [])
        ''hello'' = Inr llm_error_text"
    using query_llm_fallbacks
      [of "scripted (Inr (JObj [(''choices'', JObj [(''text'', JStr ''hi'')])])) []" "''hello''"
          "[(''choices'', JObj [(''text'', JStr ''hi'')])]" _ _ "(''text'', JStr ''hi'')" "[]"]
    by (simp add: scripted_def dict_get_def)
  from a b c d show ?thesis by simp
qed

text \<open>
  The claim as stated fails: a body with no expected field at all, \<^verbatim>\<open>{}\<close>, does not give
  \<open>llm_error_text\<close>, and a body that is a list, \<^verbatim>\<open>[]\<close>, makes \<^verbatim>\<open>query_llm\<close> raise
  \<open>AttributeError\<close>.
\<close>

theorem query_llm_missing_fields_counterexample:
  "query_llm (scripted (Inr (JObj [])) []) ''hello'' \<noteq> Inr llm_error_text
   \<and> query_llm (scripted (Inr (JArr [])) []) ''hello'' = Inl AttributeError"
  by (simp add: query_llm_def scripted_def extract_text_def dict_get_def texts_differ)


section \<open>The response parser\<close>

text \<open>
  C9, as amended. Whenever \<^verbatim>\<open>json.loads\<close> rejects the input with a \<open>JSONDecodeError\<close>,
  \<^verbatim>\<open>json_parser\<close> returns exactly the dictionary
  \<^verbatim>\<open>{"action": "respond_to_user", "args": {"response": "I couldn't understand the response
  from the LLM. It's not in the correct format."}}\<close>. When \<^verbatim>\<open>json.loads\<close> raises any other
  exception, \<^verbatim>\<open>json_parser\<close> raises it as well: its handler names \<open>JSONDecodeError\<close> only.
\<close>

theorem json_parser_decode_error_fallback:
  "(json_loads env s = Inl JSONDecodeError \<longrightarrow>
      json_parser env s
      = Inr (JObj [(''action'', JStr ''respond_to_user''),
                   (''args'', JObj [(''response'', JStr
           ''I couldn't understand the response from the LLM. It's not in the correct format.'')])]))
   \<and> (json_loads env s = Inl e \<and> e \<noteq> JSONDecodeError \<longrightarrow> json_parser env s = Inl e)"
  by (simp add: json_parser_def respond_to_user_def)

theorem json_parser_decode_error_fallback_witness:
  "json_loads (scripted (Inl RequestException) []) ''Sure! The time is'' = Inl JSONDecodeError
   \<and> json_parser (scripted (Inl RequestException) []) ''Sure! The time is''
       = Inr (JObj [(''action'', JStr ''respond_to_user''),
                    (''args'', JObj [(''response'', JStr
            ''I couldn't understand the response from the LLM. It's not in the correct format.'')])])
   \<and> json_parser
         (scripted (Inl RequestException) [(''[1]'', JArr [JInt 1])]) ''[1]''
       \<noteq> Inr (JObj [(''action'', JStr ''respond_to_user''),
                    (''args'', JObj [(''response'', JStr
            ''I couldn't understand the response from the LLM. It's not in the correct format.'')])])
   \<and> json_parser deep_env deep_text = Inl RecursionError"
proof -
  have h: "json_loads (scripted (Inl RequestException) []) ''Sure! The time is'' = Inl JSONDecodeError"
    by (simp add: scripted_def)
  have a: "json_parser (scripted (Inl RequestException) []) ''Sure! The time is''
       = Inr (JObj [(''action'', JStr ''respond_to_user''),
                    (''args'', JObj [(''response'', JStr
            ''I couldn't understand the response from the LLM. It's not in the correct format.'')])])"
    using json_parser_decode_error_fallback
      [of "scripted (Inl RequestException) []" "''Sure! The time is''"] h
    by simp
  have k: "json_loads deep_env deep_text = Inl RecursionError"
    by (simp add: deep_env_def)
  have b: "json_parser deep_env deep_text = Inl RecursionError"
    using json_parser_decode_error_fallback [of deep_env deep_text RecursionError] k
    by simp
  have c: "json_parser
         (scripted (Inl RequestException) [(''[1]'', JArr [JInt 1])]) ''[1]''
       \<noteq> Inr (JObj [(''action'', JStr ''respond_to_user''),
                    (''args'', JObj [(''response'', JStr
            ''I couldn't understand the response from the LLM. It's not in the correct format.'')])])"
    by (simp add: json_parser_def scripted_def)
  from h a b c show ?thesis by simp
qed

text \<open>
  The claim as stated fails: the text of 1000 opening brackets is syntactically invalid,
  \<^verbatim>\<open>json.loads\<close> raises \<open>RecursionError\<close> on it, and \<^verbatim>\<open>json_parser\<close> raises instead of
  returning its fallback dictionary.
\<close>

theorem json_parser_deep_nesting_counterexample:
  "json_loads deep_env deep_text = Inl RecursionError
   \<and> json_parser deep_env deep_text = Inl RecursionError
   \<and> json_parser deep_env deep_text
       \<noteq> Inr (JObj [(''action'', JStr ''respond_to_user''),
                    (''args'', JObj [(''response'', JStr
            ''I couldn't understand the response from the LLM. It's not in the correct format.'')])])"
  by (simp add: json_parser_def deep_env_def)


section \<open>The time tool\<close>

text \<open>
  C10. For every city string whose lower-cased form (by \<^verbatim>\<open>str.lower()\<close>, whatever it does
  to the string) is not a key of the timezone table, the time tool returns the text
  \<^verbatim>\<open>Could not determine the timezone for {city}.\<close>, both as the body of \<^verbatim>\<open>use\<close> and through
  the keyword call \<^verbatim>\<open>use(city=...)\<close>; it does not raise.
\<close>

theorem time_tool_unlisted_city:
  assumes "map_of city_timezones (str_lower py city) = None"
  shows "TimeTool_use py (JStr city) = ''Could not determine the timezone for '' @ city @ ''.''
       \<and> use (TimeTool py) [(''city'', JStr city)]
           = Inr (''Could not determine the timezone for '' @ city @ ''.'')"
  using assms
  by (simp add: TimeTool_use_def get_timezone_def fmt_def TimeTool_def TimeTool_call_def)

theorem time_tool_unlisted_city_witness:
  "map_of city_timezones (str_lower ascii_lib ''Atlantis'') = None
   \<and> TimeTool_use ascii_lib (JStr ''Atlantis'') = ''Could not determine the timezone for Atlantis.''
   \<and> use (TimeTool ascii_lib) [(''city'', JStr ''Atlantis'')]
       = Inr ''Could not determine the timezone for Atlantis.''
   \<and> map_of city_timezones (str_lower ascii_lib ''TOKYO'') = Some ''Asia/Tokyo''
   \<and> TimeTool_use ascii_lib (JStr ''TOKYO'')
       = ''The current time in TOKYO is 2024-01-01 09:00:00 JST+0900.''"
proof -
  have h: "map_of city_timezones (str_lower ascii_lib ''Atlantis'') = None"
    by (simp add: city_timezones_def str_lower_ascii_lib ascii_lower_def ascii_lower_char_def)
  have t: "map_of city_timezones (str_lower ascii_lib ''TOKYO'') = Some ''Asia/Tokyo''"
    by (simp add: city_timezones_def str_lower_ascii_lib ascii_lower_def ascii_lower_char_def)
  have u: "TimeTool_use ascii_lib (JStr ''TOKYO'')
           = ''The current time in TOKYO is 2024-01-01 09:00:00 JST+0900.''"
    using t by (simp add: TimeTool_use_def get_timezone_def fmt_def ascii_lib_def)
  from time_tool_unlisted_city [OF h] h t u show ?thesis by simp
qed

text \<open>
  C5. The claim that the keyword call of the time tool never raises fails on the code: with
  an empty keyword dictionary (backend text \<^verbatim>\<open>{"action": "Time Tool", "args": {}}\<close>) the
  call \<^verbatim>\<open>tool.use(**{})\<close> raises \<open>TypeError\<close> before the \<^verbatim>\<open>try\<close> of \<^verbatim>\<open>use\<close> is entered, and
  the dispatch loop lets it through.
\<close>

theorem time_tool_call_without_city_raises:
  "use (TimeTool py) [] = Inl TypeError
   \<and> dispatch py' [TimeTool py]
        (JObj [(''action'', JStr ''Time Tool''), (''args'', JObj [])]) raw
       = Inl TypeError"
  by (simp add: TimeTool_def TimeTool_call_def action_lower_def call_kwargs_def dict_get_def)


section \<open>Tool dispatch\<close>

text \<open>
  C8. For every registry and every parsed dictionary whose action is a string (or absent,
  read as the empty string) and whose args are a dictionary, the dispatch loop selects the
  first tool in registration order whose name equals the action once \<^verbatim>\<open>str.lower()\<close> is
  applied to both, calls it with the args as keywords and returns what it returns, as text
  and not wrapped into a dictionary; an exception of the tool leaves the loop unchanged.
\<close>

theorem dispatch_first_match:
  assumes "dict_get d ''action'' (JStr []) = JStr act"
      and "find (\<lambda>t. str_lower py (name t) = str_lower py act) ts = Some t"
      and "dict_get d ''args'' (JObj []) = JObj kwargs"
  shows "dispatch py ts (JObj d) response
         = (case use t kwargs of Inl e \<Rightarrow> Inl e | Inr s \<Rightarrow> Inr (Text s))"
  using assms
proof (induction ts)
  case Nil
  then show ?case by simp
next
  case (Cons x xs)
  show ?case
  proof (cases "str_lower py (name x) = str_lower py act")
    case True
    with Cons.prems have "t = x" by simp
    with True Cons.prems show ?thesis
      by (simp add: action_lower_def call_kwargs_def map_sum_def split: sum.splits)
  next
    case False
    with Cons.prems have "find (\<lambda>t. str_lower py (name t) = str_lower py act) xs = Some t"
      by simp
    with Cons.IH Cons.prems have "dispatch py xs (JObj d) response
         = (case use t kwargs of Inl e \<Rightarrow> Inl e | Inr s \<Rightarrow> Inr (Text s))" by simp
    with False Cons.prems show ?thesis by (simp add: action_lower_def)
  qed
qed

theorem dispatch_first_match_witness:
  "dict_get [(''action'', JStr ''TIME TOOL''), (''args'', JObj [(''city'', JStr ''Atlantis'')])]
     ''action'' (JStr []) = JStr ''TIME TOOL''
   \<and> str_lower ascii_lib (name weather_tool) \<noteq> str_lower ascii_lib ''TIME TOOL''
   \<and> str_lower ascii_lib (name (TimeTool ascii_lib)) = str_lower ascii_lib ''TIME TOOL''
   \<and> str_lower ascii_lib (name shadowed_tool) = str_lower ascii_lib ''TIME TOOL''
   \<and> find (\<lambda>t. str_lower ascii_lib (name t) = str_lower ascii_lib ''TIME TOOL'')
        [weather_tool, TimeTool ascii_lib, shadowed_tool]
       = Some (TimeTool ascii_lib)
   \<and> dispatch ascii_lib [weather_tool, TimeTool ascii_lib, shadowed_tool]
        (JObj [(''action'', JStr ''TIME TOOL''), (''args'', JObj [(''city'', JStr ''Atlantis'')])])
        ''raw''
       = Inr (Text ''Could not determine the timezone for Atlantis.'')"
proof -
  let ?d = "[(''action'', JStr ''TIME TOOL''), (''args'', JObj [(''city'', JStr ''Atlantis'')])]"
  have h1: "dict_get ?d ''action'' (JStr []) = JStr ''TIME TOOL''"
    by (simp add: dict_get_def)
  have n1: "str_lower ascii_lib (name weather_tool) \<noteq> str_lower ascii_lib ''TIME TOOL''"
    by (simp add: weather_tool_def str_lower_ascii_lib ascii_lower_def ascii_lower_char_def)
  have n2: "str_lower ascii_lib (name (TimeTool ascii_lib)) = str_lower ascii_lib ''TIME TOOL''"
    by (simp add: name_TimeTool str_lower_ascii_lib ascii_lower_def ascii_lower_char_def)
  have n3: "str_lower ascii_lib (name shadowed_tool) = str_lower ascii_lib ''TIME TOOL''"
    by (simp add: shadowed_tool_def str_lower_ascii_lib ascii_lower_def ascii_lower_char_def)
  have h2: "find (\<lambda>t. str_lower ascii_lib (name t) = str_lower ascii_lib ''TIME TOOL'')
              [weather_tool, TimeTool ascii_lib, shadowed_tool]
            = Some (TimeTool ascii_lib)"
    using n1 n2 by simp
  have h3: "dict_get ?d ''args'' (JObj []) = JObj [(''city'', JStr ''Atlantis'')]"
    by (simp add: dict_get_def)
  have u: "use (TimeTool ascii_lib) [(''city'', JStr ''Atlantis'')]
           = Inr ''Could not determine the timezone for Atlantis.''"
    by (simp add: TimeTool_def TimeTool_call_def TimeTool_use_def get_timezone_def fmt_def
        city_timezones_def str_lower_ascii_lib ascii_lower_def ascii_lower_char_def)
  from dispatch_first_match [OF h1 h2 h3, of "''raw''"] u h1 h2 n1 n2 n3 show ?thesis by simp
qed

text \<open>
  C3. The claim that \<^verbatim>\<open>process_input\<close> returns a result for every backend text fails on
  the code: the text \<^verbatim>\<open>[]\<close> is valid JSON but no dictionary, \<^verbatim>\<open>json_parser\<close> returns the
  list, and with a tool registered the loop evaluates \<^verbatim>\<open>response_dict.get\<close> on it, which
  raises \<open>AttributeError\<close> outside every \<^verbatim>\<open>try\<close>.
\<close>

theorem process_input_raises_on_json_array:
  "fst (process_input (scripted (Inr (completion ''[]'')) [(''[]'', JArr [])]) main_agent ''hello'')
   = Inl AttributeError"
proof -
  have "ascii_strip ''[]'' = ''[]''" by (simp add: ascii_strip_def ascii_space_def)
  then have q: "\<And>p. query_llm (scripted (Inr (completion ''[]'')) [(''[]'', JArr [])]) p = Inr ''[]''"
    using query_llm_completion [of "''[]''"] by simp
  have j: "json_parser (scripted (Inr (completion ''[]'')) [(''[]'', JArr [])]) ''[]'' = Inr (JArr [])"
    by (simp add: json_parser_def scripted_def)
  show ?thesis
    by (simp add: process_input_def Let_def q j remember_user_def tools_main_agent action_lower_def)
qed

text \<open>
  C4. The claim that a parsed \<^verbatim>\<open>respond_to_user\<close> decision is returned with its parsed
  response text fails on the code: for the backend text
  \<^verbatim>\<open>{"action":"respond_to_user","args":{"response":"hi"}}\<close> no tool matches, and the
  final \<^verbatim>\<open>return\<close> builds its dictionary from the raw text \<^verbatim>\<open>response\<close>, not from
  \<^verbatim>\<open>response_dict\<close>; the response carried is the whole JSON text, not \<^verbatim>\<open>hi\<close>.
\<close>

theorem respond_to_user_returns_raw_text:
  "fst (process_input (scripted (Inr (completion hi_raw)) [(hi_raw, respond_to_user ''hi'')])
          main_agent ''hello'')
   = Inr (Dict (respond_to_user hi_raw))
   \<and> respond_to_user hi_raw \<noteq> respond_to_user ''hi''"
proof -
  let ?env = "scripted (Inr (completion hi_raw)) [(hi_raw, respond_to_user ''hi'')]"
  have "truthy (JStr hi_raw)" by (simp add: hi_raw_def)
  then have q: "\<And>p. query_llm ?env p = Inr hi_raw"
    using query_llm_completion [of hi_raw] by (simp add: strip_hi_raw)
  have j: "json_parser ?env hi_raw = Inr (respond_to_user ''hi'')"
    by (simp add: json_parser_def scripted_def)
  have a: "action_lower ascii_lib (respond_to_user ''hi'') = Inr ''respond_to_user''"
    by (simp add: action_lower_def respond_to_user_def dict_get_def str_lower_ascii_lib
        ascii_lower_def ascii_lower_char_def)
  have r: "fst (process_input ?env main_agent ''hello'') = Inr (Dict (respond_to_user hi_raw))"
    by (simp add: process_input_def Let_def q j remember_user_def tools_main_agent a
        name_TimeTool lower_time_tool lib_scripted str_lower_ascii_lib)
  have "hi_raw \<noteq> ''hi''" by (simp add: hi_raw_def)
  then have "respond_to_user hi_raw \<noteq> respond_to_user ''hi''"
    by (simp add: respond_to_user_def)
  with r show ?thesis by simp
qed

text \<open>
  C7. The claim that an action matching no registered tool always gives the raw backend
  text back, and not an error, fails on the code: for the backend text
  \<^verbatim>\<open>{"action": null}\<close> the action matches no tool, but \<^verbatim>\<open>.lower()\<close> is called on
  \<^verbatim>\<open>None\<close> at line 118 and \<open>AttributeError\<close> leaves \<^verbatim>\<open>process_input\<close>. The default
  \<^verbatim>\<open>""\<close> of \<^verbatim>\<open>response_dict.get("action", "")\<close> covers a missing action only; for an
  action that is a string or missing the raw text is returned, as
  \<open>unmatched_string_action_returns_raw\<close> shows, here for \<^verbatim>\<open>"Weather Tool"\<close>.
\<close>

theorem process_input_raises_on_null_action:
  "fst (process_input
          (scripted (Inr (completion null_action_raw)) [(null_action_raw, JObj [(''action'', JNull)])])
          main_agent ''hello'')
   = Inl AttributeError
   \<and> fst (process_input
         (scripted (Inr (completion weather_raw))
            [(weather_raw, JObj [(''action'', JStr ''Weather Tool''),
                                 (''args'', JObj [(''city'', JStr ''Paris'')])])])
         main_agent ''What is the weather in Paris?'')
   = Inr (Dict (JObj [(''action'', JStr ''respond_to_user''),
                      (''args'', JObj [(''response'', JStr weather_raw)])]))"
proof -
  let ?env = "scripted (Inr (completion null_action_raw))
                [(null_action_raw, JObj [(''action'', JNull)])]"
  have "truthy (JStr null_action_raw)" by (simp add: null_action_raw_def)
  then have q: "\<And>p. query_llm ?env p = Inr null_action_raw"
    using query_llm_completion [of null_action_raw] by (simp add: strip_null_action_raw)
  have j: "json_parser ?env null_action_raw = Inr (JObj [(''action'', JNull)])"
    by (simp add: json_parser_def scripted_def)
  have a: "action_lower ascii_lib (JObj [(''action'', JNull)]) = Inl AttributeError"
    by (simp add: action_lower_def dict_get_def)
  have r: "fst (process_input ?env main_agent ''hello'') = Inl AttributeError"
    by (simp add: process_input_def Let_def q j remember_user_def tools_main_agent a lib_scripted)
  let ?d = "[(''action'', JStr ''Weather Tool''), (''args'', JObj [(''city'', JStr ''Paris'')])]"
  let ?wenv = "scripted (Inr (completion weather_raw)) [(weather_raw, JObj ?d)]"
  have ne: "truthy (JStr weather_raw)" by (simp add: weather_raw_def)
  have h1: "query_llm ?wenv (build_prompt (remember_user main_agent ''What is the weather in Paris?'')
              ''What is the weather in Paris?'') = Inr weather_raw"
    using query_llm_completion [OF ne] by (simp add: strip_weather_raw)
  have h2: "json_parser ?wenv weather_raw = Inr (JObj ?d)"
    by (simp add: json_parser_def scripted_def)
  have h3: "dict_get ?d ''action'' (JStr []) = JStr ''Weather Tool''"
    by (simp add: dict_get_def)
  have h4: "\<forall>t \<in> set (tools main_agent).
              str_lower (lib ?wenv) (name t) \<noteq> str_lower (lib ?wenv) ''Weather Tool''"
    by (simp add: tools_main_agent name_TimeTool lib_scripted str_lower_ascii_lib
        ascii_lower_def ascii_lower_char_def)
  from r unmatched_string_action_returns_raw [OF h1 h2 h3 h4] show ?thesis by simp
qed

end
